theory Spec2Isabelle
  imports Main "HOL-Library.Word"
begin

section \<open>The analytics snapshot (pkg/storage/analytics.go)\<close>

text \<open>
  Go's \<open>int\<close> is taken at its 64-bit width: addition wraps around. A \<open>time.Time\<close> is
  kept as the number of nanoseconds since the zero time, so that the zero value of the
  struct is \<open>GoTime 0\<close>.
\<close>

type_synonym goint = "64 word"

datatype gotime = GoTime int

record Analytics =
  InstallID :: string
  RunID :: string
  Version :: string
  Timestamp :: gotime
  UploadIndex :: goint
  GOOS :: string
  GOARCH :: string
  GoVersion :: string
  MemAlloc :: goint
  MemTotalAlloc :: goint
  MemSys :: goint
  MemNumGC :: goint
  BadgerMain :: goint
  BadgerTrees :: goint
  BadgerDicts :: goint
  BadgerDimensions :: goint
  BadgerSegments :: goint
  ControllerIndex :: goint
  ControllerComparison :: goint
  ControllerDiff :: goint
  ControllerIngest :: goint
  ControllerRender :: goint
  SpyRbspy :: goint
  SpyPyspy :: goint
  SpyGospy :: goint
  SpyEbpfspy :: goint
  SpyPhpspy :: goint
  SpyDotnetspy :: goint
  SpyJavaspy :: goint
  AppsCount :: goint

text \<open>The value of \<open>storage.Analytics{}\<close>: every field at the zero value of its type.\<close>

definition zeroAnalytics :: Analytics where
  "zeroAnalytics =
     \<lparr>InstallID = [], RunID = [], Version = [], Timestamp = GoTime 0, UploadIndex = 0,
      GOOS = [], GOARCH = [], GoVersion = [],
      MemAlloc = 0, MemTotalAlloc = 0, MemSys = 0, MemNumGC = 0,
      BadgerMain = 0, BadgerTrees = 0, BadgerDicts = 0, BadgerDimensions = 0,
      BadgerSegments = 0,
      ControllerIndex = 0, ControllerComparison = 0, ControllerDiff = 0,
      ControllerIngest = 0, ControllerRender = 0,
      SpyRbspy = 0, SpyPyspy = 0, SpyGospy = 0, SpyEbpfspy = 0, SpyPhpspy = 0,
      SpyDotnetspy = 0, SpyJavaspy = 0, AppsCount = 0\<rparr>"

section \<open>Panics and results\<close>

text \<open>
  A Go function that may panic returns \<open>panic + 'a\<close>: \<open>Inl\<close> is the panic that
  unwinds the goroutine, \<open>Inr\<close> the normal return.
\<close>

datatype panic =
    NilDereference
  | ReflectPanic string
  | CloseOfClosedChannel

definition andThen :: "panic + 'a \<Rightarrow> ('a \<Rightarrow> panic + 'b) \<Rightarrow> panic + 'b" where
  "andThen r f = (case r of Inl p \<Rightarrow> Inl p | Inr x \<Rightarrow> f x)"

text \<open>Dereferencing a pointer (\<open>*p\<close>): a nil pointer panics.\<close>

definition deref :: "'a option \<Rightarrow> panic + 'a" where
  "deref p = (case p of None \<Rightarrow> Inl NilDereference | Some x \<Rightarrow> Inr x)"

section \<open>The part of package reflect that mergeAnalytics uses\<close>

datatype kind = KInvalid | KInt | KInt8 | KInt16 | KInt32 | KInt64 | KString | KStruct

text \<open>
  A struct field as the type declares it: its name and its tag, the tag as the list of
  its \<open>key:"value"\<close> pairs.
\<close>

record struct_field =
  sf_name :: string
  sf_tag :: "(string \<times> string) list"

text \<open>
  A \<open>reflect.Value\<close> made by \<open>reflect.ValueOf\<close> from a value that is not a pointer.
  \<open>VInvalid\<close> is the zero Value, which \<open>FieldByName\<close> returns when the struct has no
  field of that name. A struct value carries the name of its type and, for every field
  in declaration order, the declaration and the field's value.
\<close>

datatype rvalue =
    VInvalid
  | VInt goint
  | VString string
  | VStruct string "(struct_field \<times> rvalue) list"

record rtype =
  t_name :: string
  t_kind :: kind
  t_fields :: "struct_field list"

text \<open>\<open>Value.Type\<close> panics on the zero Value.\<close>

fun TypeOf :: "rvalue \<Rightarrow> panic + rtype" where
  "TypeOf VInvalid = Inl (ReflectPanic ''call of reflect.Value.Type on zero Value'')"
| "TypeOf (VInt _) = Inr \<lparr>t_name = ''int'', t_kind = KInt, t_fields = []\<rparr>"
| "TypeOf (VString _) = Inr \<lparr>t_name = ''string'', t_kind = KString, t_fields = []\<rparr>"
| "TypeOf (VStruct n fs) = Inr \<lparr>t_name = n, t_kind = KStruct, t_fields = map fst fs\<rparr>"

text \<open>\<open>Value.NumField\<close> and \<open>Value.Field\<close> panic unless the Value is a struct.\<close>

fun NumField :: "rvalue \<Rightarrow> panic + nat" where
  "NumField (VStruct n fs) = Inr (length fs)"
| "NumField _ = Inl (ReflectPanic ''call of reflect.Value.NumField on non-struct Value'')"

fun Field :: "rvalue \<Rightarrow> nat \<Rightarrow> panic + rvalue" where
  "Field (VStruct n fs) i =
     (if i < length fs then Inr (snd (fs ! i))
      else Inl (ReflectPanic ''reflect: Field index out of range''))"
| "Field _ i = Inl (ReflectPanic ''call of reflect.Value.Field on non-struct Value'')"

text \<open>
  \<open>Value.FieldByName\<close>: the field of that name, the zero Value when there is none, a
  panic when the Value is not a struct.
\<close>

fun FieldByName :: "rvalue \<Rightarrow> string \<Rightarrow> panic + rvalue" where
  "FieldByName (VStruct n fs) name =
     (case find (\<lambda>f. sf_name (fst f) = name) fs of
        None \<Rightarrow> Inr VInvalid
      | Some f \<Rightarrow> Inr (snd f))"
| "FieldByName _ name =
     Inl (ReflectPanic ''call of reflect.Value.FieldByName on non-struct Value'')"

text \<open>\<open>Type.Field(i)\<close> panics unless the type is a struct with more than \<open>i\<close> fields.\<close>

definition TypeField :: "rtype \<Rightarrow> nat \<Rightarrow> panic + struct_field" where
  "TypeField t i =
     (if t_kind t \<noteq> KStruct then Inl (ReflectPanic ''reflect: Field of non-struct type'')
      else if i < length (t_fields t) then Inr (t_fields t ! i)
      else Inl (ReflectPanic ''reflect: Field index out of bounds''))"

text \<open>\<open>StructTag.Lookup(key)\<close>: the value and whether the key is present.\<close>

definition TagLookup :: "struct_field \<Rightarrow> string \<Rightarrow> string option" where
  "TagLookup f key = map_of (sf_tag f) key"

text \<open>\<open>Value.Int\<close> panics unless the Value holds a signed integer.\<close>

fun IntOf :: "rvalue \<Rightarrow> panic + goint" where
  "IntOf (VInt x) = Inr x"
| "IntOf VInvalid = Inl (ReflectPanic ''call of reflect.Value.Int on zero Value'')"
| "IntOf _ = Inl (ReflectPanic ''call of reflect.Value.Int on non-integer Value'')"

text \<open>
  \<open>Value.SetInt\<close> panics unless the Value is settable. No Value of this program is:
  all of them come from \<open>reflect.ValueOf\<close> of a struct passed by value, which is a copy
  and not addressable, or are the zero Value.
\<close>

fun SetInt :: "rvalue \<Rightarrow> goint \<Rightarrow> panic + unit" where
  "SetInt VInvalid x = Inl (ReflectPanic ''call of reflect.Value.SetInt on zero Value'')"
| "SetInt _ x = Inl (ReflectPanic ''reflect.Value.SetInt using unaddressable value'')"

text \<open>\<open>reflect.ValueOf\<close> of an Analytics struct: the thirty fields with their tags.\<close>

definition gauge :: "string \<Rightarrow> string \<Rightarrow> struct_field" where
  "gauge name json = \<lparr>sf_name = name, sf_tag = [(''json'', json)]\<rparr>"

definition counter :: "string \<Rightarrow> string \<Rightarrow> struct_field" where
  "counter name json = \<lparr>sf_name = name, sf_tag = [(''json'', json), (''type'', ''counter'')]\<rparr>"

text \<open>A \<open>time.Time\<close> is itself a struct; its unexported fields are folded into one.\<close>

fun ValueOfTime :: "gotime \<Rightarrow> rvalue" where
  "ValueOfTime (GoTime t) =
     VStruct ''Time'' [(\<lparr>sf_name = ''ext'', sf_tag = []\<rparr>, VInt (word_of_int t))]"

definition ValueOf :: "Analytics \<Rightarrow> rvalue" where
  "ValueOf a = VStruct ''Analytics''
     [(gauge ''InstallID'' ''install_id'', VString (InstallID a)),
      (gauge ''RunID'' ''run_id'', VString (RunID a)),
      (gauge ''Version'' ''version'', VString (Version a)),
      (gauge ''Timestamp'' ''timestamp'', ValueOfTime (Timestamp a)),
      (gauge ''UploadIndex'' ''upload_index'', VInt (UploadIndex a)),
      (gauge ''GOOS'' ''goos'', VString (GOOS a)),
      (gauge ''GOARCH'' ''goarch'', VString (GOARCH a)),
      (gauge ''GoVersion'' ''go_version'', VString (GoVersion a)),
      (gauge ''MemAlloc'' ''mem_alloc'', VInt (MemAlloc a)),
      (gauge ''MemTotalAlloc'' ''mem_total_alloc'', VInt (MemTotalAlloc a)),
      (gauge ''MemSys'' ''mem_sys'', VInt (MemSys a)),
      (gauge ''MemNumGC'' ''mem_num_gc'', VInt (MemNumGC a)),
      (counter ''BadgerMain'' ''badger_main'', VInt (BadgerMain a)),
      (counter ''BadgerTrees'' ''badger_trees'', VInt (BadgerTrees a)),
      (counter ''BadgerDicts'' ''badger_dicts'', VInt (BadgerDicts a)),
      (counter ''BadgerDimensions'' ''badger_dimensions'', VInt (BadgerDimensions a)),
      (counter ''BadgerSegments'' ''badger_segments'', VInt (BadgerSegments a)),
      (gauge ''ControllerIndex'' ''controller_index'', VInt (ControllerIndex a)),
      (gauge ''ControllerComparison'' ''controller_comparison'', VInt (ControllerComparison a)),
      (gauge ''ControllerDiff'' ''controller_diff'', VInt (ControllerDiff a)),
      (gauge ''ControllerIngest'' ''controller_ingest'', VInt (ControllerIngest a)),
      (gauge ''ControllerRender'' ''controller_render'', VInt (ControllerRender a)),
      (gauge ''SpyRbspy'' ''spy_rbspy'', VInt (SpyRbspy a)),
      (gauge ''SpyPyspy'' ''spy_pyspy'', VInt (SpyPyspy a)),
      (gauge ''SpyGospy'' ''spy_gospy'', VInt (SpyGospy a)),
      (gauge ''SpyEbpfspy'' ''spy_ebpfspy'', VInt (SpyEbpfspy a)),
      (gauge ''SpyPhpspy'' ''spy_phpspy'', VInt (SpyPhpspy a)),
      (gauge ''SpyDotnetspy'' ''spy_dotnetspy'', VInt (SpyDotnetspy a)),
      (gauge ''SpyJavaspy'' ''spy_javaspy'', VInt (SpyJavaspy a)),
      (gauge ''AppsCount'' ''apps_count'', VInt (AppsCount a))]"

section \<open>mergeAnalytics\<close>

text \<open>
  One pass of the loop body for index \<open>i\<close>. As in the source, \<open>fieldtype\<close> is
  \<open>bs.Type()\<close>, the type of the whole struct: its \<open>Name()\<close> is the name the two
  \<open>FieldByName\<close> calls look for, and its \<open>Kind()\<close> is what the \<open>switch\<close> tests.
  A Go \<open>switch\<close> with no matching case and no default does nothing.
\<close>

definition isSignedInt :: "kind \<Rightarrow> bool" where
  "isSignedInt k = (k = KInt \<or> k = KInt8 \<or> k = KInt16 \<or> k = KInt32 \<or> k = KInt64)"

definition mergeField :: "rvalue \<Rightarrow> rvalue \<Rightarrow> rvalue \<Rightarrow> nat \<Rightarrow> panic + unit" where
  "mergeField bs cu ret i =
     andThen (Field bs i) (\<lambda>field.
     andThen (TypeOf bs) (\<lambda>fieldtype.
     andThen (FieldByName cu (t_name fieldtype)) (\<lambda>fieldCurrent.
     andThen (FieldByName ret (t_name fieldtype)) (\<lambda>fieldRet.
     andThen (TypeField fieldtype i) (\<lambda>sf.
       if TagLookup sf ''type'' = Some ''counter'' then
         (if isSignedInt (t_kind fieldtype) then
            andThen (IntOf field) (\<lambda>x.
            andThen (IntOf fieldCurrent) (\<lambda>y.
              SetInt fieldRet (x + y)))
          else Inr ())
       else Inr ())))))"

text \<open>The loop \<open>for i := 0; i < bs.NumField(); i++\<close>, from index \<open>i\<close> on.\<close>

function mergeFrom :: "rvalue \<Rightarrow> rvalue \<Rightarrow> rvalue \<Rightarrow> nat \<Rightarrow> panic + unit" where
  "mergeFrom bs cu ret i =
     (case NumField bs of
        Inl p \<Rightarrow> Inl p
      | Inr n \<Rightarrow>
          if i < n then
            (case mergeField bs cu ret i of
               Inl p \<Rightarrow> Inl p
             | Inr u \<Rightarrow> mergeFrom bs cu ret (Suc i))
          else Inr ())"
  by pat_completeness auto
termination
  by (relation "measure (\<lambda>(bs, cu, ret, i). (case NumField bs of Inl p \<Rightarrow> 0 | Inr n \<Rightarrow> n - i))")
     auto

text \<open>
  The pointers are dereferenced in the order of the source (\<open>*current\<close>, then
  \<open>*baseline\<close>). \<open>ret\<close> reflects a copy of \<open>retv\<close>, so nothing the loop does can
  reach \<open>retv\<close>: the function returns the address of the struct it started with.
\<close>

definition mergeAnalytics :: "Analytics option \<Rightarrow> Analytics option \<Rightarrow> panic + Analytics" where
  "mergeAnalytics baseline current =
     (let retv = zeroAnalytics in
      andThen (deref current) (\<lambda>c.
      andThen (deref baseline) (\<lambda>b.
      andThen (mergeFrom (ValueOf b) (ValueOf c) (ValueOf retv) 0) (\<lambda>u.
        Inr retv))))"

text \<open>
  What section 4.2 of the specification asks of the merge, written from its words:
  counter fields are summed, every other field is the current snapshot's.
\<close>

definition merge_spec :: "Analytics \<Rightarrow> Analytics \<Rightarrow> Analytics" where
  "merge_spec b c =
     c\<lparr>BadgerMain := BadgerMain b + BadgerMain c,
       BadgerTrees := BadgerTrees b + BadgerTrees c,
       BadgerDicts := BadgerDicts b + BadgerDicts c,
       BadgerDimensions := BadgerDimensions b + BadgerDimensions c,
       BadgerSegments := BadgerSegments b + BadgerSegments c\<rparr>"

section \<open>Durable storage (pkg/storage/analytics.go)\<close>

text \<open>
  A stored byte string is kept as what \<open>json.Unmarshal\<close> makes of it when it decodes
  into a zero-valued Analytics: the struct it leaves behind and whether it reports an
  error. \<open>json.Marshal\<close> of a snapshot gives bytes that decode to that snapshot; whether
  it fails is an input of the call, and on failure the bytes are nil, which do not
  decode.
\<close>

datatype bytes = Bytes Analytics bool

definition json_Marshal :: "bool \<Rightarrow> Analytics \<Rightarrow> bytes \<times> bool" where
  "json_Marshal fails a = (if fails then (Bytes zeroAnalytics True, True) else (Bytes a False, False))"

fun json_Unmarshal :: "bytes \<Rightarrow> Analytics \<times> bool" where
  "json_Unmarshal (Bytes a e) = (a, e)"

type_synonym db = "string \<rightharpoonup> bytes"

datatype db_error = ErrKeyNotFound

text \<open>
  The two operations of the key-value library (badger, not part of this repository) that
  ReadAnalytics calls. \<open>Txn.Get\<close> returns the item and no error when the key is stored,
  a nil item and \<open>ErrKeyNotFound\<close> when it is not. \<open>Item.Value\<close> reads the fields of
  its receiver before it calls the function it is given, so on a nil item it dereferences
  a nil pointer.
\<close>

definition txn_Get :: "db \<Rightarrow> string \<Rightarrow> bytes option \<times> db_error option" where
  "txn_Get d key = (case d key of None \<Rightarrow> (None, Some ErrKeyNotFound) | Some v \<Rightarrow> (Some v, None))"

definition item_Value :: "bytes option \<Rightarrow> (bytes \<Rightarrow> 'r) \<Rightarrow> panic + 'r" where
  "item_Value item fn = (case item of None \<Rightarrow> Inl NilDereference | Some val \<Rightarrow> Inr (fn val))"

text \<open>
  ReadAnalytics: \<open>v, e := txn.Get(...)\<close> and then \<open>v.Value(...)\<close> whatever \<open>e\<close> is.
  The error that the closure returns goes to \<open>View\<close>, whose result is dropped; \<open>a\<close>
  is what Unmarshal left in it.
\<close>

definition ReadAnalytics :: "db \<Rightarrow> panic + Analytics" where
  "ReadAnalytics d =
     (let (v, e) = txn_Get d ''analytics'' in
      andThen (item_Value v (\<lambda>val. fst (json_Unmarshal val))) (\<lambda>a. Inr a))"

text \<open>
  SaveAnalytics: the error of \<open>json.Marshal\<close> is dropped and the bytes stored as they
  are; the error of \<open>Update\<close> is dropped too, and a failed update leaves the store as it
  was.
\<close>

record save_env =
  saveMarshalFails :: bool
  updateFails :: bool

definition SaveAnalytics :: "save_env \<Rightarrow> db \<Rightarrow> Analytics \<Rightarrow> db" where
  "SaveAnalytics e d a =
     (let v = fst (json_Marshal (saveMarshalFails e) a) in
      if updateFails e then d else d(''analytics'' \<mapsto> v))"

section \<open>The service\<close>

record Service =
  uploads :: goint
  baseline :: "Analytics option"
  stopClosed :: bool
  doneClosed :: bool

text \<open>NewService: no upload yet, a nil baseline, both channels open.\<close>

definition NewService :: Service where
  "NewService = \<lparr>uploads = 0, baseline = None, stopClosed = False, doneClosed = False\<rparr>"

text \<open>
  What one call of getAnalytics reads from outside the service: the runtime, the clock,
  the storage's identity and disk usage, the stats provider. The fields of
  \<open>runtime.MemStats\<close> have their own widths (\<open>uint64\<close>, and \<open>uint32\<close> for NumGC);
  the disk usage is taken as already converted by \<open>int(...)\<close>.
\<close>

record readings =
  installID :: string
  newUUID :: string
  buildVersion :: string
  timeNow :: gotime
  runtimeGOOS :: string
  runtimeGOARCH :: string
  runtimeVersion :: string
  msAlloc :: "64 word"
  msTotalAlloc :: "64 word"
  msSys :: "64 word"
  msNumGC :: "32 word"
  diskUsage :: "string \<rightharpoonup> goint"
  controllerStats :: "string \<rightharpoonup> goint"
  appsCount :: goint

text \<open>Indexing a Go map: the zero value when the key is absent.\<close>

definition mapIndex :: "(string \<rightharpoonup> goint) \<Rightarrow> string \<Rightarrow> goint" where
  "mapIndex m k = (case m k of None \<Rightarrow> 0 | Some v \<Rightarrow> v)"

definition getAnalytics :: "readings \<Rightarrow> Service \<Rightarrow> Analytics" where
  "getAnalytics r s =
     \<lparr>InstallID = installID r,
      RunID = newUUID r,
      Version = buildVersion r,
      Timestamp = timeNow r,
      UploadIndex = uploads s,
      GOOS = runtimeGOOS r,
      GOARCH = runtimeGOARCH r,
      GoVersion = runtimeVersion r,
      MemAlloc = msAlloc r,
      MemTotalAlloc = msTotalAlloc r,
      MemSys = msSys r,
      MemNumGC = ucast (msNumGC r),
      BadgerMain = mapIndex (diskUsage r) ''main'',
      BadgerTrees = mapIndex (diskUsage r) ''trees'',
      BadgerDicts = mapIndex (diskUsage r) ''dicts'',
      BadgerDimensions = mapIndex (diskUsage r) ''dimensions'',
      BadgerSegments = mapIndex (diskUsage r) ''segments'',
      ControllerIndex = mapIndex (controllerStats r) ''index'',
      ControllerComparison = mapIndex (controllerStats r) ''comparison'',
      ControllerDiff = mapIndex (controllerStats r) ''diff'',
      ControllerIngest = mapIndex (controllerStats r) ''ingest'',
      ControllerRender = mapIndex (controllerStats r) ''render'',
      SpyRbspy = mapIndex (controllerStats r) ''ingest:rbspy'',
      SpyPyspy = mapIndex (controllerStats r) ''ingest:pyspy'',
      SpyGospy = mapIndex (controllerStats r) ''ingest:gospy'',
      SpyEbpfspy = mapIndex (controllerStats r) ''ingest:ebpfspy'',
      SpyPhpspy = mapIndex (controllerStats r) ''ingest:phpspy'',
      SpyDotnetspy = mapIndex (controllerStats r) ''ingest:dotnetspy'',
      SpyJavaspy = mapIndex (controllerStats r) ''ingest:javaspy'',
      AppsCount = appsCount r\<rparr>"

section \<open>sendReport\<close>

text \<open>
  What the network does to one call: whether \<open>json.Marshal\<close> fails, and what
  \<open>httpClient.Post\<close> returns, a response (or nil) and an error (or nil). A response
  has a status code, which the source never reads, and a body whose reading may fail.
\<close>

record response =
  statusCode :: nat
  bodyReadFails :: bool

record http_env =
  marshalFails :: bool
  postResp :: "response option"
  postErr :: bool

text \<open>
  What a run leaves behind, in order: log lines, calls of \<open>httpClient.Post\<close> with the
  payload, calls of SaveAnalytics with the snapshot, and calls of mergeAnalytics with
  their two arguments.
\<close>

datatype event =
    LogDebug string
  | LogError string
  | HttpPost bytes
  | Persist Analytics
  | MergeCall "Analytics option" Analytics

definition sendReport :: "readings \<Rightarrow> http_env \<Rightarrow> Service \<Rightarrow> panic + (Service \<times> event list)" where
  "sendReport r h s =
     (let m = getAnalytics r s;
          ev0 = [LogDebug ''sending analytics report'', MergeCall (baseline s) m] in
      andThen (mergeAnalytics (baseline s) (Some m)) (\<lambda>m'.
        let (buf, err) = json_Marshal (marshalFails h) m' in
        if err then Inr (s, ev0 @ [LogError ''Error happened when preparing JSON''])
        else
          let ev1 = ev0 @ [HttpPost buf];
              ev2 = (if postErr h
                     then ev1 @ [LogError ''Error happened when uploading anonymized usage data'']
                     else ev1) in
          case postResp h of
            Some resp \<Rightarrow>
              if bodyReadFails resp
              then Inr (s, ev2 @ [LogError ''Error happened when uploading reading server response''])
              else Inr (s\<lparr>uploads := uploads s + 1\<rparr>, ev2)
          | None \<Rightarrow> Inr (s\<lparr>uploads := uploads s + 1\<rparr>, ev2)))"

section \<open>Start and Stop\<close>

text \<open>
  Start runs on its own goroutine and Stop on the caller's, so the two are modelled as a
  transition system: a state holds the service, the store, which timer channels have a
  value waiting, where each of the two goroutines stands, and the events so far. Each
  action is one step of one goroutine or one firing of a timer; a \<open>select\<close> may take
  any case whose channel is ready.
\<close>

datatype start_pc = NotStarted | AwaitingGrace | Running | StartReturned | StartPanicked panic

datatype stop_pc = NotCalled | StopSaved | StopWaiting | StopReturned | StopPanicked panic

record sys =
  svc :: Service
  store :: db
  timerReady :: bool
  tickerReady :: bool
  snapshotReady :: bool
  startPc :: start_pc
  stopPc :: stop_pc
  trace :: "event list"

definition initial :: "db \<Rightarrow> sys" where
  "initial d =
     \<lparr>svc = NewService, store = d, timerReady = False, tickerReady = False,
      snapshotReady = False, startPc = NotStarted, stopPc = NotCalled, trace = []\<rparr>"

datatype action =
    StartBegins
  | TimerFires
  | TickerFires
  | SnapshotFires
  | GraceStop
  | GraceTimer readings http_env
  | LoopTicker readings http_env
  | LoopSnapshot readings save_env
  | LoopStop
  | StopBegins readings save_env
  | StopCloses
  | StopReceivesDone

text \<open>A panic on either goroutine ends the process: nothing runs afterwards.\<close>

definition crashed :: "sys \<Rightarrow> bool" where
  "crashed s =
     ((case startPc s of StartPanicked p \<Rightarrow> True | _ \<Rightarrow> False) \<or>
      (case stopPc s of StopPanicked p \<Rightarrow> True | _ \<Rightarrow> False))"

text \<open>Leaving Start runs the deferred \<open>close(s.done)\<close>.\<close>

definition startReturns :: "sys \<Rightarrow> sys" where
  "startReturns s =
     (if doneClosed (svc s) then s\<lparr>startPc := StartPanicked CloseOfClosedChannel\<rparr>
      else s\<lparr>svc := (svc s)\<lparr>doneClosed := True\<rparr>, startPc := StartReturned\<rparr>)"

definition startPanics :: "panic \<Rightarrow> sys \<Rightarrow> sys" where
  "startPanics p s = s\<lparr>svc := (svc s)\<lparr>doneClosed := True\<rparr>, startPc := StartPanicked p\<rparr>"

text \<open>One upload cycle on the Start goroutine, which then stands at the loop's select.\<close>

definition uploadCycle :: "readings \<Rightarrow> http_env \<Rightarrow> sys \<Rightarrow> sys" where
  "uploadCycle r h s =
     (case sendReport r h (svc s) of
        Inl p \<Rightarrow> startPanics p s
      | Inr (svc', evs) \<Rightarrow> s\<lparr>svc := svc', trace := trace s @ evs, startPc := Running\<rparr>)"

text \<open>The \<open>snapshot.C\<close> case: build, merge with the baseline, save the merged snapshot.\<close>

definition snapshotCycle :: "readings \<Rightarrow> save_env \<Rightarrow> sys \<Rightarrow> sys" where
  "snapshotCycle r e s =
     (let m = getAnalytics r (svc s) in
      case mergeAnalytics (baseline (svc s)) (Some m) of
        Inl p \<Rightarrow> startPanics p s
      | Inr m' \<Rightarrow>
          s\<lparr>store := SaveAnalytics e (store s) m',
            trace := trace s @ [MergeCall (baseline (svc s)) m, Persist m']\<rparr>)"

text \<open>
  \<open>step a s\<close> is \<open>None\<close> when action \<open>a\<close> cannot happen in state \<open>s\<close>.
  \<^item> \<open>StartBegins\<close>: Start up to its first \<open>select\<close> (the baseline is read, the grace
    timer made).
  \<^item> \<open>TimerFires\<close>, \<open>TickerFires\<close>, \<open>SnapshotFires\<close>: a timer puts a value on its
    channel; the tickers exist once Start is in its loop, and a tick that finds one
    waiting is dropped.
  \<^item> \<open>GraceStop\<close>, \<open>GraceTimer\<close>: the two cases of the first \<open>select\<close>; the second
    goes on to the first sendReport.
  \<^item> \<open>LoopTicker\<close>, \<open>LoopSnapshot\<close>, \<open>LoopStop\<close>: the three cases of the loop's
    \<open>select\<close>.
  \<^item> \<open>StopBegins\<close>, \<open>StopCloses\<close>, \<open>StopReceivesDone\<close>: the three statements of
    Stop. A caller may call Stop again once the call before has returned.
\<close>

fun step :: "action \<Rightarrow> sys \<Rightarrow> sys option" where
  "step StartBegins s =
     (if crashed s \<or> startPc s \<noteq> NotStarted then None
      else case ReadAnalytics (store s) of
             Inl p \<Rightarrow> Some (startPanics p s)
           | Inr a \<Rightarrow> Some (s\<lparr>svc := (svc s)\<lparr>baseline := Some a\<rparr>, startPc := AwaitingGrace\<rparr>))"
| "step TimerFires s =
     (if crashed s \<or> startPc s \<noteq> AwaitingGrace \<or> timerReady s then None
      else Some (s\<lparr>timerReady := True\<rparr>))"
| "step TickerFires s =
     (if crashed s \<or> startPc s \<noteq> Running then None else Some (s\<lparr>tickerReady := True\<rparr>))"
| "step SnapshotFires s =
     (if crashed s \<or> startPc s \<noteq> Running then None else Some (s\<lparr>snapshotReady := True\<rparr>))"
| "step GraceStop s =
     (if crashed s \<or> startPc s \<noteq> AwaitingGrace \<or> \<not> stopClosed (svc s) then None
      else Some (startReturns s))"
| "step (GraceTimer r h) s =
     (if crashed s \<or> startPc s \<noteq> AwaitingGrace \<or> \<not> timerReady s then None
      else Some (uploadCycle r h (s\<lparr>timerReady := False\<rparr>)))"
| "step (LoopTicker r h) s =
     (if crashed s \<or> startPc s \<noteq> Running \<or> \<not> tickerReady s then None
      else Some (uploadCycle r h (s\<lparr>tickerReady := False\<rparr>)))"
| "step (LoopSnapshot r e) s =
     (if crashed s \<or> startPc s \<noteq> Running \<or> \<not> snapshotReady s then None
      else Some (snapshotCycle r e (s\<lparr>snapshotReady := False\<rparr>)))"
| "step LoopStop s =
     (if crashed s \<or> startPc s \<noteq> Running \<or> \<not> stopClosed (svc s) then None
      else Some (startReturns s))"
| "step (StopBegins r e) s =
     (if crashed s \<or> (stopPc s \<noteq> NotCalled \<and> stopPc s \<noteq> StopReturned) then None
      else let m = getAnalytics r (svc s) in
           Some (s\<lparr>store := SaveAnalytics e (store s) m,
                   trace := trace s @ [Persist m],
                   stopPc := StopSaved\<rparr>))"
| "step StopCloses s =
     (if crashed s \<or> stopPc s \<noteq> StopSaved then None
      else if stopClosed (svc s) then Some (s\<lparr>stopPc := StopPanicked CloseOfClosedChannel\<rparr>)
      else Some (s\<lparr>svc := (svc s)\<lparr>stopClosed := True\<rparr>, stopPc := StopWaiting\<rparr>))"
| "step StopReceivesDone s =
     (if crashed s \<or> stopPc s \<noteq> StopWaiting \<or> \<not> doneClosed (svc s) then None
      else Some (s\<lparr>stopPc := StopReturned\<rparr>))"

fun run :: "action list \<Rightarrow> sys \<Rightarrow> sys option" where
  "run [] s = Some s"
| "run (a # as) s = (case step a s of None \<Rightarrow> None | Some s' \<Rightarrow> run as s')"

text \<open>Counting what a trace holds.\<close>

fun isPost :: "event \<Rightarrow> bool" where
  "isPost (HttpPost b) = True"
| "isPost _ = False"

fun isPersist :: "event \<Rightarrow> bool" where
  "isPersist (Persist a) = True"
| "isPersist _ = False"

fun isError :: "event \<Rightarrow> bool" where
  "isError (LogError m) = True"
| "isError _ = False"

definition posts :: "event list \<Rightarrow> nat" where
  "posts evs = length (filter isPost evs)"

definition persists :: "event list \<Rightarrow> nat" where
  "persists evs = length (filter isPersist evs)"

section \<open>Reading a trace\<close>

text \<open>The first arguments of the calls of mergeAnalytics, and the snapshots saved.\<close>

fun mergeBaselines :: "event list \<Rightarrow> Analytics option list" where
  "mergeBaselines [] = []"
| "mergeBaselines (MergeCall b c # evs) = b # mergeBaselines evs"
| "mergeBaselines (e # evs) = mergeBaselines evs"

fun persisted :: "event list \<Rightarrow> Analytics list" where
  "persisted [] = []"
| "persisted (Persist a # evs) = a # persisted evs"
| "persisted (e # evs) = persisted evs"


section \<open>Invariants of the transition system\<close>

text \<open>
  Before Start has run there is no baseline and no merge.
\<close>

definition unstartedInv :: "sys \<Rightarrow> bool" where
  "unstartedInv s =
     (startPc s = NotStarted \<longrightarrow> baseline (svc s) = None \<and> mergeBaselines (trace s) = [])"

text \<open>
  The two channels against the two goroutines: \<open>done\<close> is closed only by Start on its
  way out, \<open>stop\<close> only by Stop, and Stop has returned only if Start has.
\<close>

definition stopInv :: "sys \<Rightarrow> bool" where
  "stopInv s =
     ((doneClosed (svc s) \<longrightarrow> startPc s = StartReturned \<or> crashed s) \<and>
      (stopPc s = NotCalled \<longrightarrow> \<not> stopClosed (svc s)) \<and>
      (stopPc s = StopWaiting \<or> stopPc s = StopReturned \<longrightarrow> stopClosed (svc s)) \<and>
      (stopPc s = StopReturned \<longrightarrow> startPc s = StartReturned))"

text \<open>
  As long as Start has not entered its loop, nothing was posted and every save is
  Stop's: one for a first call, a second one for a call after the first has returned.
\<close>

definition graceInv :: "sys \<Rightarrow> bool" where
  "graceInv s =
     (startPc s \<noteq> Running \<and> posts (trace s) = 0 \<and>
      persists (trace s) =
        (case stopPc s of
           NotCalled \<Rightarrow> 0
         | StopSaved \<Rightarrow> (if stopClosed (svc s) then 2 else 1)
         | StopWaiting \<Rightarrow> 1
         | StopReturned \<Rightarrow> 1
         | StopPanicked p \<Rightarrow> 2))"

section \<open>Concrete inputs\<close>

text \<open>
  The snapshots of the specification's end-to-end example: a baseline with BadgerMain 10
  and a build with BadgerMain 3 and AppsCount 7, every other field zero.
\<close>

definition baseline10 :: Analytics where
  "baseline10 = zeroAnalytics\<lparr>BadgerMain := 10\<rparr>"

definition current3 :: Analytics where
  "current3 = zeroAnalytics\<lparr>BadgerMain := 3, AppsCount := 7\<rparr>"

text \<open>A store that holds the baseline, a service that has read it, and a build whose
  disk usage of \<open>main\<close> is 3 and whose application count is 7.\<close>

definition store10 :: db where
  "store10 = [''analytics'' \<mapsto> Bytes baseline10 False]"

definition service10 :: Service where
  "service10 = NewService\<lparr>baseline := Some baseline10\<rparr>"

definition readings3 :: readings where
  "readings3 =
     \<lparr>installID = ''install-1'', newUUID = ''run-1'', buildVersion = ''0.0.1'',
      timeNow = GoTime 1000, runtimeGOOS = ''linux'', runtimeGOARCH = ''amd64'',
      runtimeVersion = ''go1.16'', msAlloc = 0, msTotalAlloc = 0, msSys = 0, msNumGC = 0,
      diskUsage = [''main'' \<mapsto> 3], controllerStats = Map.empty, appsCount = 7\<rparr>"

text \<open>Four answers of the network: a 200, a 500, a 200 whose body cannot be read, and
  no connection at all.\<close>

definition http_ok :: http_env where
  "http_ok = \<lparr>marshalFails = False,
     postResp = Some \<lparr>statusCode = 200, bodyReadFails = False\<rparr>, postErr = False\<rparr>"

definition http_500 :: http_env where
  "http_500 = \<lparr>marshalFails = False,
     postResp = Some \<lparr>statusCode = 500, bodyReadFails = False\<rparr>, postErr = False\<rparr>"

definition http_body_fails :: http_env where
  "http_body_fails = \<lparr>marshalFails = False,
     postResp = Some \<lparr>statusCode = 200, bodyReadFails = True\<rparr>, postErr = False\<rparr>"

definition http_down :: http_env where
  "http_down = \<lparr>marshalFails = False, postResp = None, postErr = True\<rparr>"

definition save_ok :: save_env where
  "save_ok = \<lparr>saveMarshalFails = False, updateFails = False\<rparr>"

text \<open>
  Four schedules. In \<open>stopInGrace\<close> Stop is called and closes the channel before the
  grace timer fires, and the first \<open>select\<close> takes its stop case. In
  \<open>stopInGraceRace\<close> Stop is called before the timer fires too, but the timer fires
  while Stop is still saving, and the \<open>select\<close> takes the timer's case. In
  \<open>stopWhileRunning\<close> Stop is called once Start is in its loop. \<open>threeCycles\<close> is
  Start with the first upload, one more upload and one snapshot.
\<close>

definition stopInGrace :: "action list" where
  "stopInGrace =
     [StartBegins, StopBegins readings3 save_ok, StopCloses, GraceStop, StopReceivesDone]"


definition stopWhileRunning :: "action list" where
  "stopWhileRunning =
     [StartBegins, TimerFires, GraceTimer readings3 http_ok, StopBegins readings3 save_ok,
      StopCloses, LoopStop, StopReceivesDone]"

definition threeCycles :: "action list" where
  "threeCycles =
     [TimerFires, GraceTimer readings3 http_ok, TickerFires, LoopTicker readings3 http_down,
      SnapshotFires, LoopSnapshot readings3 save_ok]"

section \<open>Properties of mergeAnalytics\<close>

lemma mergeField_struct:
  assumes "i < length fb"
  shows "mergeField (VStruct nb fb) (VStruct nc fc) (VStruct nr fr) i = Inr ()"
  using assms
  by (simp add: mergeField_def andThen_def TypeField_def isSignedInt_def split: option.split)

lemma mergeFrom_struct:
  "mergeFrom (VStruct nb fb) (VStruct nc fc) (VStruct nr fr) i = Inr ()"
proof (induction "length fb - i" arbitrary: i)
  case 0
  then show ?case by (subst mergeFrom.simps) simp
next
  case (Suc k)
  then have "i < length fb" and "k = length fb - Suc i" by simp_all
  with Suc.hyps(1) show ?case
    by (subst mergeFrom.simps) (simp add: mergeField_struct)
qed

text \<open>
  Why no counter is summed: at index 12 the tag test succeeds (the field is BadgerMain,
  tagged as a counter), but the kind the \<open>switch\<close> looks at is the struct's.
\<close>

lemma counter_tag_found:
  "andThen (TypeOf (ValueOf b)) (\<lambda>fieldtype.
     andThen (TypeField fieldtype 12) (\<lambda>sf.
       Inr (sf_name sf, TagLookup sf ''type'', t_kind fieldtype, isSignedInt (t_kind fieldtype))))
   = Inr (''BadgerMain'', Some ''counter'', KStruct, False)"
  by (simp add: ValueOf_def andThen_def TypeField_def TagLookup_def counter_def
      isSignedInt_def)

lemma mergeAnalytics_zero:
  "mergeAnalytics (Some b) (Some c) = Inr zeroAnalytics"
  by (simp add: mergeAnalytics_def deref_def andThen_def ValueOf_def mergeFrom_struct
      del: mergeFrom.simps)

text \<open>
  C1 (merge additivity). The claim asks that every counter field of the merged snapshot
  be the baseline's value plus the current one's. At the specification's own example
  (baseline BadgerMain 10, current BadgerMain 3) the sum is 13, and so is the field in
  the merge the specification describes, but mergeAnalytics returns BadgerMain 0: the
  loop tests the kind of the struct type instead of the field's, so no counter is ever
  summed.
\<close>

theorem mergeAnalytics_counter_not_summed:
  "map_sum id BadgerMain (mergeAnalytics (Some baseline10) (Some current3)) = Inr 0
   \<and> BadgerMain baseline10 + BadgerMain current3 = 13
   \<and> BadgerMain (merge_spec baseline10 current3) = 13"
  by (simp add: mergeAnalytics_zero zeroAnalytics_def baseline10_def current3_def
      merge_spec_def)



text \<open>
  C5 (merge totality). For every pair of snapshots, an all-zero baseline included,
  mergeAnalytics returns without a panic. The loop itself returns normally on structs
  of any shape, whatever the fields, tags and values of the baseline, the current
  snapshot and the result are: a field tagged as a counter whose kind cannot be summed
  is passed over, and the result stays at the zero value.
\<close>

theorem mergeAnalytics_total:
  "mergeAnalytics (Some b) (Some c) = Inr zeroAnalytics
   \<and> mergeAnalytics (Some zeroAnalytics) (Some c) = Inr zeroAnalytics
   \<and> mergeFrom (VStruct nb fb) (VStruct nc fc) (VStruct nr fr) 0 = Inr ()"
  by (simp add: mergeAnalytics_zero mergeFrom_struct del: mergeFrom.simps)

section \<open>Properties of ReadAnalytics\<close>

lemma ReadAnalytics_stored:
  "d ''analytics'' = Some (Bytes a e) \<Longrightarrow> ReadAnalytics d = Inr a"
  by (simp add: ReadAnalytics_def txn_Get_def item_Value_def andThen_def)

text \<open>
  C4 (persistence read totality). The claim asks that ReadAnalytics return the zero
  snapshot when nothing is stored under the key. On the empty store \<open>Txn.Get\<close> gives
  a nil item with \<open>ErrKeyNotFound\<close>; ReadAnalytics does not look at the error and calls
  \<open>Value\<close> on the nil item, which panics.
\<close>

theorem ReadAnalytics_empty_store_panics:
  "ReadAnalytics Map.empty = Inl NilDereference"
  by (simp add: ReadAnalytics_def txn_Get_def item_Value_def andThen_def)

section \<open>Properties of sendReport\<close>

text \<open>With a baseline in place the merge cannot panic, and sendReport is a case
  distinction on what the network did.\<close>

lemma sendReport_cases:
  assumes "baseline s = Some b"
  shows "sendReport r h s =
     (let ev0 = [LogDebug ''sending analytics report'', MergeCall (Some b) (getAnalytics r s)] in
      if marshalFails h then Inr (s, ev0 @ [LogError ''Error happened when preparing JSON''])
      else let ev2 = ev0 @ [HttpPost (Bytes zeroAnalytics False)] @
                 (if postErr h
                  then [LogError ''Error happened when uploading anonymized usage data'']
                  else []) in
           if (\<exists>resp. postResp h = Some resp \<and> bodyReadFails resp)
           then Inr (s, ev2 @ [LogError ''Error happened when uploading reading server response''])
           else Inr (s\<lparr>uploads := uploads s + 1\<rparr>, ev2))"
  using assms
  by (auto simp add: sendReport_def mergeAnalytics_zero andThen_def json_Marshal_def Let_def
      split: option.split)

lemma sendReport_frame:
  assumes "sendReport r h s = Inr (s', evs)"
  shows "baseline s' = baseline s" and "stopClosed s' = stopClosed s"
    and "doneClosed s' = doneClosed s" and "mergeBaselines evs = [baseline s]"
    and "persists evs = 0"
  using assms
  by (auto simp add: sendReport_def andThen_def json_Marshal_def Let_def persists_def
      split: sum.splits if_splits option.splits)

lemma sendReport_has_baseline:
  assumes "sendReport r h s = Inr (s', evs)"
  shows "\<exists>b. baseline s = Some b"
  using assms
  by (cases "baseline s")
     (simp_all add: sendReport_def mergeAnalytics_def deref_def andThen_def)

lemma baseline_service10: "baseline service10 = Some baseline10"
  by (simp add: service10_def NewService_def)

lemma sint_succ:
  fixes x :: goint
  assumes "sint x < 2 ^ 63 - 1"
  shows "sint (x + 1) = sint x + 1"
proof -
  have lo: "- (2 ^ 63) \<le> sint x + 1"
    using sint_ge [of x] by simp
  have hi: "sint x + 1 < 2 ^ 63"
    using assms by simp
  have "sint (x + 1) = signed_take_bit 63 (sint x + sint (1 :: goint))"
    by (simp add: sint_word_add)
  also have "\<dots> = signed_take_bit 63 (sint x + 1)"
    by simp
  also have "\<dots> = sint x + 1"
    using lo hi by (simp add: signed_take_bit_int_eq_self)
  finally show ?thesis .
qed

text \<open>
  C6 (the reporter never raises), as claimed: a non-success response is logged. A
  response with status 500 whose body reads well comes back with no error from
  \<open>Post\<close>; sendReport never looks at the status, and no error line is logged.
\<close>

theorem sendReport_status_counterexample:
  "map_sum id (filter isError \<circ> snd) (sendReport readings3 http_500 service10) = Inr []
   \<and> map_option statusCode (postResp http_500) = Some 500"
  by (simp add: sendReport_cases [OF baseline_service10] http_500_def Let_def)

text \<open>
  C6, amended: for every service that has its baseline (Start sets it before the first
  sendReport) and whatever the build reads and the network does, sendReport returns
  normally. \<open>Post\<close> is called at most once. A serialization failure is logged and
  nothing is posted nor changed; a transport failure is logged; a failure to read the
  body is logged. The status code is never inspected: when \<open>Post\<close> reports no error and
  the body, if any, reads well, no error is logged, whatever the status.
\<close>

theorem sendReport_returns:
  assumes "baseline s = Some b"
  shows "\<exists>s' evs. sendReport r h s = Inr (s', evs)
     \<and> posts evs \<le> 1
     \<and> (marshalFails h \<longrightarrow> posts evs = 0 \<and> s' = s
            \<and> LogError ''Error happened when preparing JSON'' \<in> set evs)
     \<and> (\<not> marshalFails h \<and> postErr h \<longrightarrow>
            LogError ''Error happened when uploading anonymized usage data'' \<in> set evs)
     \<and> (\<not> marshalFails h \<and> (\<exists>resp. postResp h = Some resp \<and> bodyReadFails resp) \<longrightarrow>
            LogError ''Error happened when uploading reading server response'' \<in> set evs)
     \<and> (\<not> marshalFails h \<and> \<not> postErr h
          \<and> (\<forall>resp. postResp h = Some resp \<longrightarrow> \<not> bodyReadFails resp) \<longrightarrow>
            filter isError evs = [])"
  by (simp add: sendReport_cases [OF assms] Let_def posts_def)

theorem sendReport_returns_witness:
  "baseline service10 = Some baseline10
   \<and> (\<exists>s' evs. sendReport readings3 http_body_fails service10 = Inr (s', evs)
        \<and> posts evs \<le> 1
        \<and> LogError ''Error happened when uploading reading server response'' \<in> set evs)"
  using sendReport_returns [OF baseline_service10, of readings3 http_body_fails]
  by (auto simp add: baseline_service10 http_body_fails_def)

text \<open>
  C8 (upload index), as claimed: the counter is incremented after every upload cycle,
  failed ones included, and increases strictly from one sendReport to the next. When the
  response body cannot be read, sendReport returns before the increment: the counter is
  what it was.
\<close>

theorem sendReport_uploads_counterexample:
  "map_sum id (uploads \<circ> fst) (sendReport readings3 http_body_fails service10)
     = Inr (uploads service10)"
  by (simp add: sendReport_cases [OF baseline_service10] http_body_fails_def Let_def)

text \<open>
  C8, amended: a sendReport that returns has added one to the counter exactly when
  serialization succeeded and the response, if there is one, had a body that could be
  read (a transport failure with no response counts); when serialization or the reading
  of the body fails the counter is unchanged. So, short of the overflow of Go's int, the
  counter never decreases, but it does not increase strictly. getAnalytics puts the
  counter into UploadIndex, and the UploadIndex of a merged snapshot does not depend on
  the baseline.
\<close>

theorem sendReport_uploads:
  assumes "sendReport r h s = Inr (s', evs)"
  shows "uploads s' =
       (if marshalFails h \<or> (\<exists>resp. postResp h = Some resp \<and> bodyReadFails resp)
        then uploads s else uploads s + 1)
     \<and> (sint (uploads s) < 2 ^ 63 - 1 \<longrightarrow> sint (uploads s) \<le> sint (uploads s'))
     \<and> UploadIndex (getAnalytics r' s') = uploads s'
     \<and> map_sum id UploadIndex (mergeAnalytics (Some b) (Some c))
         = map_sum id UploadIndex (mergeAnalytics (Some b') (Some c))"
proof -
  from sendReport_has_baseline [OF assms] obtain b0 where b0: "baseline s = Some b0" ..
  from assms have u: "uploads s' =
       (if marshalFails h \<or> (\<exists>resp. postResp h = Some resp \<and> bodyReadFails resp)
        then uploads s else uploads s + 1)"
    by (auto simp add: sendReport_cases [OF b0] Let_def split: if_splits)
  have m: "sint (uploads s) < 2 ^ 63 - 1 \<longrightarrow> sint (uploads s) \<le> sint (uploads s')"
    using u by (auto simp add: sint_succ)
  have g: "UploadIndex (getAnalytics r' s') = uploads s'"
    by (simp add: getAnalytics_def)
  from u m g show ?thesis by (simp add: mergeAnalytics_zero)
qed

theorem sendReport_uploads_witness:
  "map_sum id (uploads \<circ> fst) (sendReport readings3 http_down service10) = Inr 1
   \<and> map_sum id (uploads \<circ> fst) (sendReport readings3 http_ok service10) = Inr 1"
proof -
  obtain s1 e1 where r1: "sendReport readings3 http_down service10 = Inr (s1, e1)"
    by (simp add: sendReport_cases [OF baseline_service10] http_down_def Let_def)
  obtain s2 e2 where r2: "sendReport readings3 http_ok service10 = Inr (s2, e2)"
    by (simp add: sendReport_cases [OF baseline_service10] http_ok_def Let_def)
  have "uploads s1 = 1"
    using sendReport_uploads [OF r1] by (simp add: http_down_def service10_def NewService_def)
  moreover have "uploads s2 = 1"
    using sendReport_uploads [OF r2] by (simp add: http_ok_def service10_def NewService_def)
  ultimately show ?thesis using r1 r2 by simp
qed

section \<open>Properties of Start and Stop\<close>

lemmas run_simps = initial_def NewService_def store10_def crashed_def ReadAnalytics_def
  txn_Get_def item_Value_def andThen_def startReturns_def startPanics_def uploadCycle_def
  snapshotCycle_def sendReport_def mergeAnalytics_zero json_Marshal_def SaveAnalytics_def
  save_ok_def http_ok_def http_down_def Let_def posts_def persists_def

lemma run_append:
  "run (xs @ ys) s = (case run xs s of None \<Rightarrow> None | Some s' \<Rightarrow> run ys s')"
  by (induction xs arbitrary: s) (auto split: option.splits)

lemma mergeBaselines_append:
  "mergeBaselines (xs @ ys) = mergeBaselines xs @ mergeBaselines ys"
  by (induction xs rule: mergeBaselines.induct) simp_all

lemma persisted_append:
  "persisted (xs @ ys) = persisted xs @ persisted ys"
  by (induction xs rule: persisted.induct) simp_all

lemma initial_invs:
  "unstartedInv (initial d)" "stopInv (initial d)" "graceInv (initial d)"
  by (simp_all add: unstartedInv_def stopInv_def graceInv_def initial_def NewService_def
      posts_def persists_def)

subsection \<open>The baseline\<close>

lemma step_started:
  assumes "step a s = Some s'" and "startPc s \<noteq> NotStarted"
  shows "startPc s' \<noteq> NotStarted \<and> baseline (svc s') = baseline (svc s) \<and>
     set (mergeBaselines (trace s'))
       \<subseteq> insert (baseline (svc s)) (set (mergeBaselines (trace s)))"
  using assms
  by (cases a)
     (auto simp add: startReturns_def startPanics_def uploadCycle_def snapshotCycle_def
        mergeBaselines_append Let_def
        dest: sendReport_frame
        split: if_splits sum.splits prod.splits)

lemma run_started:
  "run acts s = Some s' \<Longrightarrow> startPc s \<noteq> NotStarted \<Longrightarrow>
     baseline (svc s') = baseline (svc s) \<and>
     set (mergeBaselines (trace s'))
       \<subseteq> insert (baseline (svc s)) (set (mergeBaselines (trace s)))"
proof (induction acts arbitrary: s)
  case Nil
  then show ?case by auto
next
  case (Cons a acts)
  from Cons.prems(1) obtain s1 where s1: "step a s = Some s1" and rest: "run acts s1 = Some s'"
    by (auto split: option.splits)
  from step_started [OF s1 Cons.prems(2)] Cons.IH [OF rest] show ?case by auto
qed

lemma step_unstarted:
  assumes "step a s = Some s'" and "unstartedInv s"
  shows "unstartedInv s'"
  using assms
  by (cases a)
     (auto simp add: unstartedInv_def startReturns_def startPanics_def uploadCycle_def
        snapshotCycle_def mergeBaselines_append Let_def
        split: if_splits sum.splits prod.splits)

lemma run_unstarted:
  "run acts s = Some s' \<Longrightarrow> unstartedInv s \<Longrightarrow> unstartedInv s'"
  by (induction acts arbitrary: s) (auto split: option.splits dest: step_unstarted)

text \<open>
  C9 (baseline immutability). Take any run of the service and cut it where Start begins.
  Before that point the baseline is nil and nothing was merged. Start's first statement
  sets the baseline to what ReadAnalytics returns from the store as it is then. From
  there on, whatever the two goroutines and the timers do, the baseline stays that
  value, and the first argument of every call of mergeAnalytics in the trace, from an
  upload or from a snapshot tick, is that value: no merge takes the result of another.
\<close>

theorem baseline_assigned_once:
  assumes "run pre (initial d) = Some s0" and "step StartBegins s0 = Some s1"
    and "run post s1 = Some s"
  shows "baseline (svc s0) = None \<and> mergeBaselines (trace s0) = []
     \<and> baseline (svc s1) = (case ReadAnalytics (store s0) of Inl p \<Rightarrow> None | Inr a \<Rightarrow> Some a)
     \<and> baseline (svc s) = baseline (svc s1)
     \<and> set (mergeBaselines (trace s)) \<subseteq> {baseline (svc s1)}"
proof -
  from assms(1) initial_invs(1) have u: "unstartedInv s0" by (rule run_unstarted)
  from assms(2) have ns: "startPc s0 = NotStarted" by (simp split: if_splits)
  with u have b0: "baseline (svc s0) = None" and m0: "mergeBaselines (trace s0) = []"
    by (simp_all add: unstartedInv_def)
  from assms(2) ns b0
  have b1: "baseline (svc s1) = (case ReadAnalytics (store s0) of Inl p \<Rightarrow> None | Inr a \<Rightarrow> Some a)"
    and t1: "trace s1 = trace s0" and st: "startPc s1 \<noteq> NotStarted"
    by (auto simp add: startPanics_def split: if_splits sum.splits)
  from run_started [OF assms(3) st] t1 m0 have "baseline (svc s) = baseline (svc s1)"
    and "set (mergeBaselines (trace s)) \<subseteq> {baseline (svc s1)}" by auto
  with b0 m0 b1 show ?thesis by simp
qed

theorem baseline_assigned_once_witness:
  "run [] (initial store10) = Some (initial store10)
   \<and> map_option (baseline \<circ> svc) (step StartBegins (initial store10)) = Some (Some baseline10)
   \<and> map_option (baseline \<circ> svc) (run (StartBegins # threeCycles) (initial store10))
       = Some (Some baseline10)
   \<and> map_option (mergeBaselines \<circ> trace) (run (StartBegins # threeCycles) (initial store10))
       = Some [Some baseline10, Some baseline10, Some baseline10]"
proof -
  have p: "run [] (initial store10) = Some (initial store10)" by simp
  obtain s1 where a: "step StartBegins (initial store10) = Some s1"
    and b: "baseline (svc s1) = Some baseline10"
    by (simp add: run_simps)
  obtain s where r: "run threeCycles s1 = Some s"
    and m: "mergeBaselines (trace s) = [Some baseline10, Some baseline10, Some baseline10]"
    using a by (auto simp add: threeCycles_def run_simps split: if_splits)
  from baseline_assigned_once [OF p a r] b have "baseline (svc s) = Some baseline10" by simp
  with p a b r m show ?thesis by simp
qed

subsection \<open>Stop\<close>

lemma step_stopInv:
  assumes "step a s = Some s'" and "stopInv s"
  shows "stopInv s'"
  using assms
  by (cases a)
     (auto simp add: stopInv_def crashed_def startReturns_def startPanics_def uploadCycle_def
        snapshotCycle_def Let_def
        dest: sendReport_frame
        split: if_splits sum.splits prod.splits)

lemma run_stopInv:
  "run acts s = Some s' \<Longrightarrow> stopInv s \<Longrightarrow> stopInv s'"
  by (induction acts arbitrary: s) (auto split: option.splits dest: step_stopInv)





text \<open>The first statement of Stop saves the build as it is; nothing is merged.\<close>

lemma StopBegins_saves_build:
  assumes "step (StopBegins r e) s = Some s'"
  shows "persisted (trace s') = persisted (trace s) @ [getAnalytics r (svc s)]"
    and "mergeBaselines (trace s') = mergeBaselines (trace s)"
    and "store s' = SaveAnalytics e (store s) (getAnalytics r (svc s))"
  using assms
  by (auto simp add: Let_def persisted_append mergeBaselines_append split: if_splits)

text \<open>
  C3 (Stop while Running). The claim asks that the snapshot Stop persists be the build
  merged against the baseline. With a stored baseline of BadgerMain 10, Start in its
  loop and a build that reads BadgerMain 3, Stop returns after exactly one save, and the
  snapshot saved has BadgerMain 3: \<open>s.s.SaveAnalytics(s.getAnalytics())\<close> saves the raw
  build. The only call of mergeAnalytics in the run is the one of the first sendReport.
  The merge the specification describes would give 13.
\<close>

theorem Stop_persists_raw_build:
  "map_option stopPc (run stopWhileRunning (initial store10)) = Some StopReturned
   \<and> map_option (map BadgerMain \<circ> persisted \<circ> trace) (run stopWhileRunning (initial store10))
       = Some [3]
   \<and> map_option (length \<circ> mergeBaselines \<circ> trace) (run stopWhileRunning (initial store10))
       = Some 1
   \<and> BadgerMain (merge_spec baseline10 (getAnalytics readings3 service10)) = 13"
  by (simp add: stopWhileRunning_def run_simps getAnalytics_def readings3_def mapIndex_def
      merge_spec_def baseline10_def zeroAnalytics_def)




text \<open>
  C10 (Stop is not idempotent). In any state the service can reach in which a call of
  Stop has returned, a second call saves one more snapshot and then can only go on to
  \<open>close(s.stop)\<close>, which panics: the channel is already closed.
\<close>

theorem second_Stop_panics:
  assumes "run acts (initial d) = Some s" and "stopPc s = StopReturned"
  shows "\<exists>s1. step (StopBegins r e) s = Some s1
     \<and> persists (trace s1) = persists (trace s) + 1
     \<and> (\<forall>a s2. step a s1 = Some s2 \<longrightarrow> a = StopCloses)
     \<and> map_option stopPc (step StopCloses s1) = Some (StopPanicked CloseOfClosedChannel)"
proof -
  have si: "stopInv s"
    using assms(1) initial_invs(2) by (rule run_stopInv)
  with assms(2) have sr: "startPc s = StartReturned" and sc: "stopClosed (svc s)"
    by (simp_all add: stopInv_def)
  let ?s1 = "s\<lparr>store := SaveAnalytics e (store s) (getAnalytics r (svc s)),
              trace := trace s @ [Persist (getAnalytics r (svc s))], stopPc := StopSaved\<rparr>"
  have c: "\<not> crashed s"
    using sr assms(2) by (simp add: crashed_def)
  have 1: "step (StopBegins r e) s = Some ?s1"
    using c assms(2) by (simp add: Let_def)
  have c1: "\<not> crashed ?s1"
    using sr by (simp add: crashed_def)
  have 2: "persists (trace ?s1) = persists (trace s) + 1"
    by (simp add: persists_def)
  have 3: "\<forall>a s2. step a ?s1 = Some s2 \<longrightarrow> a = StopCloses"
  proof (intro allI impI)
    fix a s2
    assume "step a ?s1 = Some s2"
    then show "a = StopCloses"
      using sr by (cases a) (simp_all split: if_splits)
  qed
  have 4: "map_option stopPc (step StopCloses ?s1) = Some (StopPanicked CloseOfClosedChannel)"
    using c1 sc by simp
  from 1 2 3 4 show ?thesis by blast
qed

theorem second_Stop_panics_witness:
  "map_option stopPc (run stopInGrace (initial store10)) = Some StopReturned
   \<and> map_option stopPc
       (run (stopInGrace @ [StopBegins readings3 save_ok, StopCloses]) (initial store10))
       = Some (StopPanicked CloseOfClosedChannel)"
proof -
  obtain s where r: "run stopInGrace (initial store10) = Some s"
    and t: "stopPc s = StopReturned"
    by (simp add: stopInGrace_def run_simps)
  from second_Stop_panics [OF r t, of readings3 save_ok] obtain s1 where
    a: "step (StopBegins readings3 save_ok) s = Some s1" and
    b: "map_option stopPc (step StopCloses s1) = Some (StopPanicked CloseOfClosedChannel)"
    by blast
  from b obtain s2 where c: "step StopCloses s1 = Some s2"
    and d: "stopPc s2 = StopPanicked CloseOfClosedChannel"
    by auto
  from r t a c d show ?thesis by (simp add: run_append)
qed

end
